theory Spec2Isabelle
  imports Complex_Main "HOL-Library.Sublist"
begin

section \<open>Content moderation pipeline: data model\<close>

text \<open>
  The development follows \<^verbatim>\<open>src/services/moderation_engine.ts\<close>, \<^verbatim>\<open>rule_engine.ts\<close>,
  \<^verbatim>\<open>spam_detector.ts\<close>, \<^verbatim>\<open>sentiment_analyzer.ts\<close> and the detector classes that are
  stored with them (profanity, toxicity, personal information), together with the type
  declarations of \<^verbatim>\<open>types/content_moderation\<close>.

  Conventions of the embedding.
  \<^item> A JavaScript string is a list of code units. The model works with code units below 256
    (HOL's \<^typ>\<open>char\<close>), so \<^term>\<open>length\<close> is the \<^verbatim>\<open>.length\<close> of such a string.
  \<^item> A JavaScript number that holds a score is a \<^typ>\<open>real\<close>: sums and comparisons are
    exact, the rounding of IEEE doubles is not modelled.
  \<^item> \<^verbatim>\<open>content_type\<close> and \<^verbatim>\<open>platform\<close> are strings, as they arrive at run time: the
    TypeScript enum types are erased and \<^verbatim>\<open>validate_request\<close> tests membership itself.
  \<^item> A thrown \<^verbatim>\<open>Error\<close> is the left injection of a sum, carrying the message.
  \<^item> \<^verbatim>\<open>async\<close> functions are awaited at once by their only caller and are modelled as
    plain functions.
\<close>

datatype SeverityLevel = LOW | MEDIUM | HIGH | CRITICAL

text \<open>The values of the enums \<^verbatim>\<open>ContentType\<close> and \<^verbatim>\<open>PlatformType\<close>.\<close>

abbreviation TEXT :: string where "TEXT \<equiv> ''text''"
abbreviation IMAGE :: string where "IMAGE \<equiv> ''image''"
abbreviation VIDEO :: string where "VIDEO \<equiv> ''video''"
abbreviation AUDIO :: string where "AUDIO \<equiv> ''audio''"

abbreviation TWITTER :: string where "TWITTER \<equiv> ''twitter''"
abbreviation FACEBOOK :: string where "FACEBOOK \<equiv> ''facebook''"
abbreviation INSTAGRAM :: string where "INSTAGRAM \<equiv> ''instagram''"
abbreviation LINKEDIN :: string where "LINKEDIN \<equiv> ''linkedin''"
abbreviation TIKTOK :: string where "TIKTOK \<equiv> ''tiktok''"
abbreviation YOUTUBE :: string where "YOUTUBE \<equiv> ''youtube''"

definition ContentType_values :: "string list" where
  "ContentType_values = [TEXT, IMAGE, VIDEO, AUDIO]"

definition PlatformType_values :: "string list" where
  "PlatformType_values = [TWITTER, FACEBOOK, INSTAGRAM, LINKEDIN, TIKTOK, YOUTUBE]"

record ContentModerationRequest =
  content :: string
  content_type :: string
  platform :: string
  user_id :: "string option"
  metadata :: "(string \<times> string) list option"

record ModerationFlag =
  type :: string
  severity :: SeverityLevel
  confidence :: real
  description :: string
  flagged_text :: "string option"
  suggestion :: "string option"

record ContentModerationResponse =
  is_flagged :: bool
  flags :: "ModerationFlag list"
  overall_severity :: SeverityLevel
  confidence_score :: real
  safe_to_post :: bool
  recommendations :: "string list"
  processing_time_ms :: int

text \<open>
  \<^verbatim>\<open>ModerationRule\<close>. The fields \<^verbatim>\<open>id\<close>, \<^verbatim>\<open>name\<close>, \<^verbatim>\<open>description\<close> and \<^verbatim>\<open>severity\<close>
  carry the prefix \<open>rule_\<close>: \<open>id\<close> is a constant of HOL, and the other names are fields of
  \<^typ>\<open>ModerationFlag\<close> already.
\<close>

record ModerationRule =
  rule_id :: string
  rule_name :: string
  rule_description :: string
  patterns :: "string list"
  rule_severity :: SeverityLevel
  enabled :: bool
  platforms :: "string list"

record ModerationConfig =
  rules :: "ModerationRule list"
  sensitivity_threshold :: real
  enable_sentiment_analysis :: bool
  enable_profanity_detection :: bool
  enable_toxicity_detection :: bool
  enable_spam_detection :: bool
  enable_hate_speech_detection :: bool
  enable_violence_detection :: bool
  enable_sexual_content_detection :: bool
  enable_personal_info_detection :: bool

record SentimentAnalysisResult =
  score :: real
  comparative :: real
  tokens :: "string list"
  words :: "string list"
  positive :: "string list"
  negative :: "string list"

record ProfanityCheckResult =
  is_profane :: bool
  profane_words :: "string list"
  clean_text :: string

text \<open>\<^verbatim>\<open>categories: Record<string, number>\<close> always has the same four keys.\<close>

record ToxicityCategories =
  general_toxicity :: real
  hate_speech :: real
  violence :: real
  sexual_content :: real

record ToxicityCheckResult =
  is_toxic :: bool
  toxicity_score :: real
  categories :: ToxicityCategories

record SpamCheckResult =
  is_spam :: bool
  spam_score :: real
  spam_indicators :: "string list"
  clean_content :: string

text \<open>
  \<^verbatim>\<open>PersonalInfoCheckResult\<close>; its field \<^verbatim>\<open>confidence\<close> is \<open>pii_confidence\<close> here, the
  plain name being the field of a flag.
\<close>

record PersonalInfoCheckResult =
  has_personal_info :: bool
  pii_confidence :: real
  detected_info :: "string list"
  info_types :: "string list"


section \<open>Notification messages\<close>

text \<open>The entries of \<^verbatim>\<open>NOTIFICATION_MESSAGES\<close> that the pipeline uses.\<close>

abbreviation CONTENT_SAFE :: string where
  "CONTENT_SAFE \<equiv> ''Content appears to be safe for posting''"
abbreviation PROFANITY_DETECTED :: string where
  "PROFANITY_DETECTED \<equiv> ''Profanity detected in content''"
abbreviation TOXICITY_DETECTED :: string where
  "TOXICITY_DETECTED \<equiv> ''Toxic content detected''"
abbreviation PERSONAL_INFO_DETECTED :: string where
  "PERSONAL_INFO_DETECTED \<equiv> ''Personal information detected''"
abbreviation SPAM_DETECTED :: string where
  "SPAM_DETECTED \<equiv> ''Spam-like content detected''"
abbreviation NEGATIVE_SENTIMENT :: string where
  "NEGATIVE_SENTIMENT \<equiv> ''Content has negative sentiment''"
abbreviation RECOMMEND_REVIEW :: string where
  "RECOMMEND_REVIEW \<equiv> ''Please review content before posting''"
abbreviation RECOMMEND_EDIT :: string where
  "RECOMMEND_EDIT \<equiv> ''Consider editing content to remove flagged elements''"
abbreviation RECOMMEND_REPLACE :: string where
  "RECOMMEND_REPLACE \<equiv> ''Consider replacing flagged content''"
abbreviation CHARACTER_LIMIT :: string where
  "CHARACTER_LIMIT \<equiv> ''Content exceeds character limit''"
abbreviation HASHTAG_LIMIT :: string where
  "HASHTAG_LIMIT \<equiv> ''Too many hashtags detected''"
abbreviation MENTION_LIMIT :: string where
  "MENTION_LIMIT \<equiv> ''Too many mentions detected''"
abbreviation MODERATION_FAILED :: string where
  "MODERATION_FAILED \<equiv> ''Content moderation failed''"
abbreviation CONTENT_TOO_LONG :: string where
  "CONTENT_TOO_LONG \<equiv> ''Content is too long for analysis''"
abbreviation CONTENT_EMPTY :: string where
  "CONTENT_EMPTY \<equiv> ''Content cannot be empty''"
abbreviation INVALID_CONTENT_TYPE :: string where
  "INVALID_CONTENT_TYPE \<equiv> ''Invalid content type specified''"
abbreviation INVALID_PLATFORM :: string where
  "INVALID_PLATFORM \<equiv> ''Invalid platform specified''"


section \<open>String operations of JavaScript\<close>

text \<open>
  \<^verbatim>\<open>String.prototype.includes\<close>: the pattern occurs as a contiguous run of code units.
\<close>

fun str_includes :: "string \<Rightarrow> string \<Rightarrow> bool" where
  "str_includes [] p = (p = [])"
| "str_includes (c # cs) p = (prefix p (c # cs) \<or> str_includes cs p)"

text \<open>
  \<^verbatim>\<open>toLowerCase\<close> on code units below 256: the letters A to Z and the capital letters of
  Latin-1 (0xC0 to 0xDE without the multiplication sign 0xD7) move up by 32.
\<close>

definition to_lower_char :: "char \<Rightarrow> char" where
  "to_lower_char c =
     (let n = of_char c :: nat
      in if (65 \<le> n \<and> n \<le> 90) \<or> (192 \<le> n \<and> n \<le> 222 \<and> n \<noteq> 215)
         then char_of (n + 32) else c)"

definition toLowerCase :: "string \<Rightarrow> string" where
  "toLowerCase s = map to_lower_char s"

text \<open>
  White space of \<^verbatim>\<open>trim\<close> and of the class \<^verbatim>\<open>\s\<close> below 256: tab, line feed, vertical
  tab, form feed, carriage return, space and the no-break space.
\<close>

definition is_js_space :: "char \<Rightarrow> bool" where
  "is_js_space c = (of_char c \<in> {9, 10, 11, 12, 13, 32, 160 :: nat})"

definition trim :: "string \<Rightarrow> string" where
  "trim s = rev (dropWhile is_js_space (rev (dropWhile is_js_space s)))"

text \<open>
  \<^verbatim>\<open>s.split(/\s+/)\<close>: the pieces between maximal runs of white space. A run at either end
  leaves an empty piece there, and the empty string splits into one empty piece.
\<close>

fun split_ws_acc :: "string \<Rightarrow> string \<Rightarrow> string list" where
  "split_ws_acc cur [] = [rev cur]"
| "split_ws_acc cur [c] = (if is_js_space c then [rev cur, []] else [rev (c # cur)])"
| "split_ws_acc cur (c # d # cs) =
     (if is_js_space c then
        (if is_js_space d then split_ws_acc cur (d # cs)
         else rev cur # split_ws_acc [] (d # cs))
      else split_ws_acc (c # cur) (d # cs))"

definition split_ws :: "string \<Rightarrow> string list" where
  "split_ws s = split_ws_acc [] s"

text \<open>\<^verbatim>\<open>(s.match(/c/g) || []).length\<close> for a pattern that is one class of code units.\<close>

definition count_chars :: "(char \<Rightarrow> bool) \<Rightarrow> string \<Rightarrow> nat" where
  "count_chars P s = length (filter P s)"

definition is_upper_AZ :: "char \<Rightarrow> bool" where
  "is_upper_AZ c = (let n = of_char c :: nat in 65 \<le> n \<and> n \<le> 90)"

text \<open>\<^verbatim>\<open>xs.join(', ')\<close>.\<close>

fun join_comma :: "string list \<Rightarrow> string" where
  "join_comma [] = []"
| "join_comma [x] = x"
| "join_comma (x # y # ys) = x @ '', '' @ join_comma (y # ys)"

text \<open>The decimal digits of a count, as a template literal prints it.\<close>

fun show_nat :: "nat \<Rightarrow> string" where
  "show_nat n =
     (if n < 10 then [char_of (48 + n)]
      else show_nat (n div 10) @ [char_of (48 + n mod 10)])"

declare show_nat.simps [simp del]

text \<open>\<^verbatim>\<open>[...new Set(xs)]\<close>: the first occurrence of every element, in order.\<close>

definition dedupe :: "'a list \<Rightarrow> 'a list" where
  "dedupe xs = rev (remdups (rev xs))"


section \<open>Platform policy\<close>

text \<open>\<^verbatim>\<open>ModerationEngine.check_platform_rules\<close> (\<^verbatim>\<open>moderation_engine.ts\<close>, lines 166 to 210).\<close>

definition check_platform_rules :: "ContentModerationRequest \<Rightarrow> ModerationFlag list" where
  "check_platform_rules request =
     (if platform request = TWITTER then
        (if length (content request) > 280 then
           [\<lparr>type = ''character_limit'', severity = LOW, confidence = 1.0,
             description = CHARACTER_LIMIT, flagged_text = None,
             suggestion = Some ''Consider shortening your post''\<rparr>]
         else [])
      else if platform request = INSTAGRAM then
        (let hashtag_count = count_chars (\<lambda>c. c = CHR ''#'') (content request)
         in if hashtag_count > 30 then
              [\<lparr>type = ''hashtag_limit'', severity = LOW, confidence = 1.0,
                description = HASHTAG_LIMIT, flagged_text = None,
                suggestion = Some ''Reduce the number of hashtags''\<rparr>]
            else [])
      else if platform request = LINKEDIN then
        (let mention_count = count_chars (\<lambda>c. c = CHR ''@'') (content request)
         in if mention_count > 5 then
              [\<lparr>type = ''mention_limit'', severity = LOW, confidence = 1.0,
                description = MENTION_LIMIT, flagged_text = None,
                suggestion = Some ''Reduce the number of mentions''\<rparr>]
            else [])
      else [])"


section \<open>Aggregation\<close>

text \<open>The table \<^verbatim>\<open>severity_scores\<close> of \<^verbatim>\<open>calculate_overall_severity\<close>.\<close>

fun severity_scores :: "SeverityLevel \<Rightarrow> nat" where
  "severity_scores LOW = 1"
| "severity_scores MEDIUM = 2"
| "severity_scores HIGH = 3"
| "severity_scores CRITICAL = 4"

text \<open>
  \<^verbatim>\<open>calculate_overall_severity\<close> (lines 212 to 227): \<^verbatim>\<open>reduce\<close> from the left, starting
  at \<^verbatim>\<open>LOW\<close>; \<open>severity_step\<close> is the callback.
\<close>

definition severity_step :: "SeverityLevel \<Rightarrow> ModerationFlag \<Rightarrow> SeverityLevel" where
  "severity_step mx flag =
     (if severity_scores (severity flag) > severity_scores mx then severity flag else mx)"

definition calculate_overall_severity :: "ModerationFlag list \<Rightarrow> SeverityLevel" where
  "calculate_overall_severity fs =
     (if length fs = 0 then LOW else foldl severity_step LOW fs)"

text \<open>\<^verbatim>\<open>calculate_confidence_score\<close> (lines 229 to 234).\<close>

definition calculate_confidence_score :: "ModerationFlag list \<Rightarrow> real" where
  "calculate_confidence_score fs =
     (if length fs = 0 then 1.0
      else foldl (\<lambda>sum flag. sum + confidence flag) 0 fs / real (length fs))"

text \<open>\<^verbatim>\<open>determine_safe_to_post\<close> (lines 236 to 244).\<close>

definition determine_safe_to_post :: "ModerationFlag list \<Rightarrow> SeverityLevel \<Rightarrow> bool" where
  "determine_safe_to_post fs overall =
     (if overall = CRITICAL \<or> overall = HIGH then False else True)"

text \<open>
  \<^verbatim>\<open>generate_recommendations\<close> (lines 246 to 277). The first branch returns at once: a
  request without flags gets the safe message and nothing after it.
\<close>

abbreviation TWITTER_TIP :: string where
  "TWITTER_TIP \<equiv> ''Consider using Twitter's built-in content warnings for sensitive topics''"
abbreviation INSTAGRAM_TIP :: string where
  "INSTAGRAM_TIP \<equiv> ''Use Instagram's content filters and moderation tools''"
abbreviation LINKEDIN_TIP :: string where
  "LINKEDIN_TIP \<equiv> ''Ensure content aligns with LinkedIn's professional community guidelines''"

definition generate_recommendations :: "ModerationFlag list \<Rightarrow> string \<Rightarrow> string list" where
  "generate_recommendations fs pf =
     (if length fs = 0 then [CONTENT_SAFE]
      else
        (let recs =
           (if list_ex (\<lambda>f. severity f = CRITICAL \<or> severity f = HIGH) fs
              then [RECOMMEND_REPLACE]
            else if list_ex (\<lambda>f. severity f = MEDIUM) fs then [RECOMMEND_EDIT]
            else [RECOMMEND_REVIEW])
         in if pf = TWITTER then recs @ [TWITTER_TIP]
            else if pf = INSTAGRAM then recs @ [INSTAGRAM_TIP]
            else if pf = LINKEDIN then recs @ [LINKEDIN_TIP]
            else recs))"


section \<open>Collaborators outside the repository\<close>

text \<open>
  Three things the services call are not code of the repository: the regular expression
  engine of JavaScript, the \<^verbatim>\<open>bad-words\<close> filter and the \<^verbatim>\<open>sentiment\<close> analyser. They are
  parameters of the model, and every theorem below holds for all of them.
  \<^descr>[\<open>RegExp_match src flags s\<close>] is \<^verbatim>\<open>None\<close> when \<^verbatim>\<open>new RegExp(src, flags)\<close> throws a
    \<^verbatim>\<open>SyntaxError\<close>; otherwise it holds the successive matches of the pattern in \<open>s\<close>, from
    left to right, as \<^verbatim>\<open>s.match\<close> returns them for a global pattern, the empty list
    standing for \<^verbatim>\<open>null\<close>. \<^verbatim>\<open>test\<close> holds when that list is not empty.
  \<^descr>[\<open>RegExp_replace src flags s r\<close>] is \<^verbatim>\<open>s.replace(/src/flags, r)\<close>.
  \<^descr>[\<open>Filter_clean removed s\<close>] is \<^verbatim>\<open>clean(s)\<close> of a \<^verbatim>\<open>bad-words\<close> filter from which
    the words \<open>removed\<close> were taken by \<^verbatim>\<open>removeWords\<close>.
  \<^descr>[\<open>Sentiment_analyze labels s\<close>] is \<^verbatim>\<open>analyze(s)\<close> of a \<^verbatim>\<open>sentiment\<close> object after
    \<^verbatim>\<open>registerLanguage('en', {labels})\<close>.
\<close>

record externals =
  RegExp_match :: "string \<Rightarrow> string \<Rightarrow> string \<Rightarrow> string list option"
  RegExp_replace :: "string \<Rightarrow> string \<Rightarrow> string \<Rightarrow> string \<Rightarrow> string"
  Filter_clean :: "string list \<Rightarrow> string \<Rightarrow> string"
  Sentiment_analyze :: "(string \<times> int) list \<Rightarrow> string \<Rightarrow> SentimentAnalysisResult"

text \<open>
  A string literal of HOL cannot hold a backslash. In the pattern sources below the
  tilde stands for it (no pattern of the repository has a tilde), and \<open>js\<close> puts the
  backslash back.
\<close>

definition js :: "string \<Rightarrow> string" where
  "js s = map (\<lambda>c. if c = CHR ''~'' then CHR 0x5C else c) s"

text \<open>A regular expression literal always compiles; the branch \<open>None\<close> is not taken.\<close>

definition match_literal :: "externals \<Rightarrow> string \<Rightarrow> string \<Rightarrow> string \<Rightarrow> string list" where
  "match_literal ext src fl s = (case RegExp_match ext src fl s of Some ms \<Rightarrow> ms | None \<Rightarrow> [])"

definition test_literal :: "externals \<Rightarrow> string \<Rightarrow> string \<Rightarrow> string \<Rightarrow> bool" where
  "test_literal ext src fl s = (match_literal ext src fl s \<noteq> [])"


section \<open>Rule engine\<close>

text \<open>
  \<^verbatim>\<open>RuleEngine.check_single_rule\<close> (\<^verbatim>\<open>rule_engine.ts\<close>, lines 32 to 75). The loop over the
  patterns carries the list \<^verbatim>\<open>flags\<close>. A pattern between slashes is compiled with the
  flags \<^verbatim>\<open>gi\<close>; the \<^verbatim>\<open>catch\<close> block continues with the next pattern.
\<close>

definition rule_flag :: "ModerationRule \<Rightarrow> string \<Rightarrow> ModerationFlag" where
  "rule_flag rule matched_text =
     \<lparr>type = ''custom_rule_'' @ rule_id rule, severity = rule_severity rule, confidence = 0.8,
      description = rule_description rule, flagged_text = Some matched_text,
      suggestion = Some (''Content matches rule: '' @ rule_name rule)\<rparr>"

definition is_regex_pattern :: "string \<Rightarrow> bool" where
  "is_regex_pattern pattern = (prefix ''/'' pattern \<and> suffix ''/'' pattern)"

text \<open>\<^verbatim>\<open>pattern.slice(1, -1)\<close>.\<close>

definition slice_1_m1 :: "string \<Rightarrow> string" where
  "slice_1_m1 pattern = butlast (tl pattern)"

fun check_single_rule_loop ::
  "externals \<Rightarrow> ContentModerationRequest \<Rightarrow> ModerationRule \<Rightarrow> string list \<Rightarrow>
   ModerationFlag list \<Rightarrow> ModerationFlag list" where
  "check_single_rule_loop ext request rule [] fs = fs"
| "check_single_rule_loop ext request rule (pattern # rest) fs =
     (if is_regex_pattern pattern then
        (case RegExp_match ext (slice_1_m1 pattern) ''gi'' (content request) of
           None \<Rightarrow> check_single_rule_loop ext request rule rest fs
         | Some matches \<Rightarrow>
             if matches \<noteq> [] then
               check_single_rule_loop ext request rule rest
                 (fs @ [rule_flag rule (join_comma matches)])
             else check_single_rule_loop ext request rule rest fs)
      else if str_includes (toLowerCase (content request)) (toLowerCase pattern) then
        check_single_rule_loop ext request rule rest (fs @ [rule_flag rule pattern])
      else check_single_rule_loop ext request rule rest fs)"

definition check_single_rule ::
  "externals \<Rightarrow> ContentModerationRequest \<Rightarrow> ModerationRule \<Rightarrow> ModerationFlag list" where
  "check_single_rule ext request rule = check_single_rule_loop ext request rule (patterns rule) []"

text \<open>
  \<^verbatim>\<open>RuleEngine.check_rules\<close> (lines 16 to 30), with the field \<^verbatim>\<open>this.rules\<close> as an
  argument.
\<close>

fun check_rules_loop ::
  "externals \<Rightarrow> ModerationRule list \<Rightarrow> ContentModerationRequest \<Rightarrow>
   ModerationFlag list \<Rightarrow> ModerationFlag list" where
  "check_rules_loop ext [] request fs = fs"
| "check_rules_loop ext (rule # rest) request fs =
     (if \<not> enabled rule then check_rules_loop ext rest request fs
      else if platform request \<notin> set (platforms rule) then
        check_rules_loop ext rest request fs
      else check_rules_loop ext rest request (fs @ check_single_rule ext request rule))"

definition check_rules ::
  "externals \<Rightarrow> ModerationRule list \<Rightarrow> ContentModerationRequest \<Rightarrow> ModerationFlag list" where
  "check_rules ext this_rules request = check_rules_loop ext this_rules request []"


section \<open>Profanity detector\<close>

text \<open>
  \<^verbatim>\<open>ProfanityDetector\<close> (stored after the rule engine, lines 128 to 179):
  \<^verbatim>\<open>setup_custom_words\<close> removes two groups of words from the filter, and \<^verbatim>\<open>check\<close>
  reports the words of \<^verbatim>\<open>common_profane\<close> only when the filter changed the text.
\<close>

definition removed_words :: "string list" where
  "removed_words =
     [''hell'', ''damn'', ''ass'', ''bitch'', ''piss'', ''shit''] @
     [''analytics'', ''analysis'', ''assistant'', ''class'', ''function'']"

definition common_profane :: "string list" where
  "common_profane = [''fuck'', ''shit'', ''bitch'', ''ass'', ''damn'', ''hell'']"

definition ProfanityDetector_check :: "externals \<Rightarrow> string \<Rightarrow> ProfanityCheckResult" where
  "ProfanityDetector_check ext c =
     (let cleaned = Filter_clean ext removed_words c;
          profane = (cleaned \<noteq> c);
          ws = (if profane
                then filter (\<lambda>word. str_includes (toLowerCase c) word) common_profane
                else [])
      in \<lparr>is_profane = profane, profane_words = ws, clean_text = cleaned\<rparr>)"


section \<open>Sentiment analyser\<close>

text \<open>
  \<^verbatim>\<open>SentimentAnalyzer\<close> (\<^verbatim>\<open>sentiment_analyzer.ts\<close>): the labels registered by
  \<^verbatim>\<open>setup_custom_analysis\<close>, and \<^verbatim>\<open>analyze\<close>, which copies the six fields of the
  library's result.
\<close>

definition custom_labels :: "(string \<times> int) list" where
  "custom_labels =
     [(''innovative'', 2), (''successful'', 2), (''growth'', 2), (''opportunity'', 2),
      (''solution'', 1), (''improve'', 1), (''excellent'', 2), (''amazing'', 2),
      (''great'', 1), (''good'', 1), (''positive'', 1), (''benefit'', 1),
      (''advantage'', 1), (''efficient'', 1), (''effective'', 1), (''reliable'', 1),
      (''secure'', 1), (''fast'', 1), (''easy'', 1), (''simple'', 1)]"

definition SentimentAnalyzer_analyze :: "externals \<Rightarrow> string \<Rightarrow> SentimentAnalysisResult" where
  "SentimentAnalyzer_analyze ext c =
     (let result = Sentiment_analyze ext custom_labels c
      in \<lparr>score = score result, comparative = comparative result, tokens = tokens result,
          words = words result, positive = positive result, negative = negative result\<rparr>)"


section \<open>Spam detector\<close>

text \<open>
  \<^verbatim>\<open>SpamDetector\<close> (\<^verbatim>\<open>spam_detector.ts\<close>, lines 8 to 195). \<^verbatim>\<open>spam_patterns\<close> is a
  \<^verbatim>\<open>Map\<close>: an association list in insertion order, which is the order of iteration.
\<close>

definition spam_patterns :: "(string \<times> real) list" where
  "spam_patterns =
     [(''buy now'', 0.7), (''limited time offer'', 0.8), (''act now'', 0.7),
      (''don't miss out'', 0.6), (''click here'', 0.6), (''free money'', 0.9),
      (''make money fast'', 0.9), (''work from home'', 0.7), (''earn money online'', 0.8),
      (''get rich quick'', 0.9), (''lose weight fast'', 0.8), (''miracle cure'', 0.9),
      (''100% guaranteed'', 0.8), (''no risk'', 0.7), (''limited supply'', 0.7),
      (''exclusive offer'', 0.6), (''secret method'', 0.8), (''government secret'', 0.9),
      (''bankruptcy'', 0.7), (''debt relief'', 0.7), (''credit repair'', 0.7),
      (''investment opportunity'', 0.6), (''hot singles'', 0.9), (''meet singles'', 0.8),
      (''enlarge your'', 0.9), (''viagra'', 0.9), (''cialis'', 0.9)]"

definition url_patterns :: "string list" where
  "url_patterns =
     [js ''https?:~/~/[^~s]+'', js ''www~.[^~s]+'', js ''bit~.ly~/[^~s]+'',
      js ''tinyurl~.com~/[^~s]+'', js ''goo~.gl~/[^~s]+'']"

text \<open>\<^verbatim>\<open>count_urls\<close> (lines 137 to 146).\<close>

definition count_urls :: "externals \<Rightarrow> string \<Rightarrow> nat" where
  "count_urls ext c =
     foldl (\<lambda>url_count pattern.
              let matches = match_literal ext pattern ''g'' c
              in if matches \<noteq> [] then url_count + length matches else url_count)
       0 url_patterns"

text \<open>
  \<^verbatim>\<open>has_suspicious_patterns\<close> (lines 148 to 164): the source and the flags of each of
  the eleven literals.
\<close>

definition suspicious_patterns :: "(string \<times> string) list" where
  "suspicious_patterns =
     [(js ''~d{4}-~d{4}-~d{4}-~d{4}'', []), (js ''~d{3}-~d{2}-~d{4}'', []),
      (js ''~d{10,}'', []), (''[A-Z]{5,}'', []), (js ''~$~d+'', []),
      (js ''%~d+'', []), (js ''free~s+[a-z]+'', ''i''), (js ''limited~s+time'', ''i''),
      (js ''act~s+now'', ''i''), (js ''click~s+here'', ''i''), (js ''buy~s+now'', ''i'')]"

definition has_suspicious_patterns :: "externals \<Rightarrow> string \<Rightarrow> bool" where
  "has_suspicious_patterns ext c =
     list_ex (\<lambda>(src, fl). test_literal ext src fl c) suspicious_patterns"

text \<open>\<^verbatim>\<open>clean_content\<close> of the detector (lines 166 to 178).\<close>

definition spam_clean_content :: "externals \<Rightarrow> string \<Rightarrow> string" where
  "spam_clean_content ext c =
     (let cleaned = foldl (\<lambda>cc pattern. RegExp_replace ext pattern ''g'' cc ''[URL]'') c url_patterns;
          cleaned = RegExp_replace ext ''!{2,}'' ''g'' cleaned ''!'';
          cleaned = RegExp_replace ext (js ''~?{2,}'') ''g'' cleaned ''?''
      in trim cleaned)"

text \<open>
  The \<^verbatim>\<open>Map\<close> \<^verbatim>\<open>word_frequency\<close>: \<^verbatim>\<open>get(word) || 0\<close> and \<^verbatim>\<open>set\<close>, which keeps the
  place of a key that is present and puts a new key last.
\<close>

fun Map_get_or_0 :: "(string \<times> nat) list \<Rightarrow> string \<Rightarrow> nat" where
  "Map_get_or_0 [] k = 0"
| "Map_get_or_0 ((k', v) # m) k = (if k' = k then v else Map_get_or_0 m k)"

fun Map_set :: "(string \<times> nat) list \<Rightarrow> string \<Rightarrow> nat \<Rightarrow> (string \<times> nat) list" where
  "Map_set [] k v = [(k, v)]"
| "Map_set ((k', v') # m) k v = (if k' = k then (k, v) # m else (k', v') # Map_set m k v)"

definition word_frequency_of :: "string list \<Rightarrow> (string \<times> nat) list" where
  "word_frequency_of ws =
     foldl (\<lambda>word_frequency word.
              if length word > 3
              then Map_set word_frequency word (Map_get_or_0 word_frequency word + 1)
              else word_frequency)
       [] ws"

text \<open>
  \<^verbatim>\<open>SpamDetector.check\<close> (lines 69 to 135). The pair \<open>(spam_score, spam_indicators)\<close> is
  threaded through the six checks in the order of the source; \<open>add_signal\<close> is the
  statement \<^verbatim>\<open>if (fired) { spam_score += amount; spam_indicators.push(indicator) }\<close>.
\<close>

definition add_signal ::
  "bool \<Rightarrow> real \<Rightarrow> string \<Rightarrow> real \<times> string list \<Rightarrow> real \<times> string list" where
  "add_signal fired amount indicator acc =
     (if fired then (fst acc + amount, snd acc @ [indicator]) else acc)"

definition spam_phrase_step ::
  "string \<Rightarrow> real \<times> string list \<Rightarrow> string \<times> real \<Rightarrow> real \<times> string list" where
  "spam_phrase_step lower_content acc entry =
     (case entry of (pattern, conf) \<Rightarrow>
        add_signal (str_includes lower_content pattern) conf
          (''Spam phrase: '' @ [CHR 0x22] @ pattern @ [CHR 0x22]) acc)"

definition repetitive_word_step ::
  "real \<times> string list \<Rightarrow> string \<times> nat \<Rightarrow> real \<times> string list" where
  "repetitive_word_step acc entry =
     (case entry of (word, cnt) \<Rightarrow>
        add_signal (cnt > 3) 0.2
          (''Repetitive word: '' @ [CHR 0x22] @ word @ [CHR 0x22] @ '' ('' @
           show_nat cnt @ '' times)'') acc)"

definition SpamDetector_check :: "externals \<Rightarrow> string \<Rightarrow> SpamCheckResult" where
  "SpamDetector_check ext c =
     (let lower_content = toLowerCase c;
          acc = foldl (spam_phrase_step lower_content) (0, []) spam_patterns;
          url_count = count_urls ext c;
          acc = add_signal (url_count > 2) (0.5 * real url_count)
                  (''Multiple URLs detected: '' @ show_nat url_count) acc;
          caps_ratio = real (count_chars is_upper_AZ c) / real (length c);
          acc = add_signal (caps_ratio > 0.5 \<and> length c > 20) 0.4
                  ''Excessive capitalization'' acc;
          exclamation_count = count_chars (\<lambda>ch. ch = CHR ''!'') c;
          question_count = count_chars (\<lambda>ch. ch = CHR ''?'') c;
          acc = add_signal (exclamation_count > 2 \<or> question_count > 3) 0.3
                  ''Excessive punctuation'' acc;
          ws = split_ws (toLowerCase c);
          word_frequency = word_frequency_of ws;
          acc = foldl repetitive_word_step acc word_frequency;
          acc = add_signal (has_suspicious_patterns ext c) 0.6
                  ''Suspicious patterns detected'' acc;
          final_score = min (fst acc) 1.0
      in \<lparr>is_spam = final_score > 0.6, spam_score = final_score, spam_indicators = snd acc,
          clean_content = spam_clean_content ext c\<rparr>)"


section \<open>Toxicity detector\<close>

text \<open>\<^verbatim>\<open>ToxicityDetector\<close> (stored after the spam detector, lines 197 to 357).\<close>

definition toxic_patterns :: "(string \<times> real) list" where
  "toxic_patterns =
     [(''kill yourself'', 0.9), (''you should die'', 0.9), (''i hope you die'', 0.9),
      (''go to hell'', 0.7), (''fuck you'', 0.8), (''you are stupid'', 0.6),
      (''you are dumb'', 0.6), (''you are an idiot'', 0.7), (''shut up'', 0.5),
      (''nobody cares'', 0.5), (''you are worthless'', 0.8), (''you are useless'', 0.7)]"

definition hate_speech_patterns :: "string list" where
  "hate_speech_patterns =
     [''all [a-z]+ are'', ''every [a-z]+ is'', ''typical [a-z]+'', ''you people'',
      ''those people'', ''go back to'', ''you don't belong'', ''you are not welcome'']"

definition violence_patterns :: "string list" where
  "violence_patterns =
     [''i will kill'', ''i want to kill'', ''i should kill'', ''punch you'', ''hit you'',
      ''beat you'', ''attack you'', ''hurt you'', ''destroy you'', ''burn you'',
      ''shoot you'', ''stab you'']"

definition sexual_content_patterns :: "string list" where
  "sexual_content_patterns =
     [''nude'', ''naked'', ''porn'', ''sex'', ''sexual'', ''intimate'', ''explicit'',
      ''adult content'', ''mature content'']"

text \<open>
  \<^verbatim>\<open>ToxicityDetector.check\<close> (lines 268 to 331). The state of the loops is the pair of
  \<^verbatim>\<open>categories\<close> and \<^verbatim>\<open>max_toxicity_score\<close>. The hate speech patterns are compiled
  by \<^verbatim>\<open>new RegExp(pattern, 'i')\<close> from the eight constant sources, which compile like
  literals.
\<close>

definition toxic_phrase_step ::
  "string \<Rightarrow> ToxicityCategories \<times> real \<Rightarrow> string \<times> real \<Rightarrow> ToxicityCategories \<times> real" where
  "toxic_phrase_step lower_content st entry =
     (case (st, entry) of ((cats, mx), (pattern, conf)) \<Rightarrow>
        if str_includes lower_content pattern
        then (cats\<lparr>general_toxicity := max (general_toxicity cats) conf\<rparr>,
              max mx conf)
        else (cats, mx))"

definition hate_speech_step ::
  "externals \<Rightarrow> string \<Rightarrow> ToxicityCategories \<times> real \<Rightarrow> string \<Rightarrow> ToxicityCategories \<times> real" where
  "hate_speech_step ext c st pattern =
     (case st of (cats, mx) \<Rightarrow>
        if test_literal ext pattern ''i'' c
        then (cats\<lparr>hate_speech := max (hate_speech cats) 0.8\<rparr>, max mx 0.8)
        else (cats, mx))"

definition violence_step ::
  "string \<Rightarrow> ToxicityCategories \<times> real \<Rightarrow> string \<Rightarrow> ToxicityCategories \<times> real" where
  "violence_step lower_content st pattern =
     (case st of (cats, mx) \<Rightarrow>
        if str_includes lower_content pattern
        then (cats\<lparr>violence := max (violence cats) 0.9\<rparr>, max mx 0.9)
        else (cats, mx))"

definition sexual_content_step ::
  "string \<Rightarrow> ToxicityCategories \<times> real \<Rightarrow> string \<Rightarrow> ToxicityCategories \<times> real" where
  "sexual_content_step lower_content st pattern =
     (case st of (cats, mx) \<Rightarrow>
        if str_includes lower_content pattern
        then (cats\<lparr>sexual_content := max (sexual_content cats) 0.7\<rparr>, max mx 0.7)
        else (cats, mx))"

definition ToxicityDetector_check :: "externals \<Rightarrow> string \<Rightarrow> ToxicityCheckResult" where
  "ToxicityDetector_check ext c =
     (let lower_content = toLowerCase c;
          st = (\<lparr>general_toxicity = 0, hate_speech = 0, violence = 0, sexual_content = 0\<rparr>,
                0::real);
          st = foldl (toxic_phrase_step lower_content) st toxic_patterns;
          st = foldl (hate_speech_step ext c) st hate_speech_patterns;
          st = foldl (violence_step lower_content) st violence_patterns;
          st = foldl (sexual_content_step lower_content) st sexual_content_patterns;
          caps_ratio = real (count_chars is_upper_AZ c) / real (length c);
          st = (if caps_ratio > 0.7 \<and> length c > 10
                then ((fst st)\<lparr>general_toxicity := max (general_toxicity (fst st)) 0.3\<rparr>,
                      max (snd st) 0.3)
                else st);
          exclamation_count = count_chars (\<lambda>ch. ch = CHR ''!'') c;
          question_count = count_chars (\<lambda>ch. ch = CHR ''?'') c;
          st = (if exclamation_count > 3 \<or> question_count > 5
                then ((fst st)\<lparr>general_toxicity := max (general_toxicity (fst st)) 0.2\<rparr>,
                      max (snd st) 0.2)
                else st)
      in \<lparr>is_toxic = snd st > 0.5, toxicity_score = snd st, categories = fst st\<rparr>)"


section \<open>Personal information detector\<close>

text \<open>
  \<^verbatim>\<open>PersonalInfoDetector\<close> (lines 8 to 162 of its file). All patterns carry the flag
  \<^verbatim>\<open>g\<close>, the address patterns \<^verbatim>\<open>gi\<close>.
\<close>

definition email_pattern :: string where
  "email_pattern = js ''~b[A-Za-z0-9._%+-]+@[A-Za-z0-9.-]+~.[A-Z|a-z]{2,}~b''"

definition phone_patterns :: "string list" where
  "phone_patterns =
     [js ''~b~d{3}[-.]?~d{3}[-.]?~d{4}~b'',
      js ''~b~(~d{3}~)~s?~d{3}[-.]?~d{4}~b'',
      js ''~b~+~d{1,3}~s?~d{3}[-.]?~d{3}[-.]?~d{4}~b'',
      js ''~b~d{10,11}~b'']"

definition ssn_pattern :: string where
  "ssn_pattern = js ''~b~d{3}-~d{2}-~d{4}~b''"

definition credit_card_pattern :: string where
  "credit_card_pattern = js ''~b~d{4}[- ]?~d{4}[- ]?~d{4}[- ]?~d{4}~b''"

definition address_patterns :: "string list" where
  "address_patterns =
     [js (''~b~d+~s+[A-Za-z~s]+'' @
          ''(?:Street|St|Avenue|Ave|Road|Rd|Boulevard|Blvd|Lane|Ln|Drive|Dr)~b''),
      js (''~b[A-Za-z~s]+'' @
          ''(?:Street|St|Avenue|Ave|Road|Rd|Boulevard|Blvd|Lane|Ln|Drive|Dr)~s+~d+~b'')]"

definition name_patterns :: "string list" where
  "name_patterns =
     [js ''~b[A-Z][a-z]+~s+[A-Z][a-z]+~b'',
      js ''~b[A-Z][a-z]+~s+[A-Z][a-z]+~s+[A-Z][a-z]+~b'']"

definition personal_keywords :: "string list" where
  "personal_keywords =
     [''password'', ''pin'', ''account number'', ''routing number'', ''date of birth'',
      ''birthday'', ''ssn'', ''social security'', ''driver license'', ''passport'',
      ''id number'']"

text \<open>
  The state of \<^verbatim>\<open>check\<close> is the triple of \<^verbatim>\<open>detected_info\<close>, \<^verbatim>\<open>info_types\<close> and
  \<^verbatim>\<open>confidence\<close>. \<open>pii_single\<close> is a block for one pattern that pushes its tag without
  looking (email, SSN, credit card); \<open>pii_multi\<close> is the body of a loop over several
  patterns, which pushes the tag once.
\<close>

type_synonym pii_state = "string list \<times> string list \<times> real"

definition pii_single :: "string list \<Rightarrow> string \<Rightarrow> real \<Rightarrow> pii_state \<Rightarrow> pii_state" where
  "pii_single matches tag conf st =
     (case st of (info, types, cf) \<Rightarrow>
        if matches \<noteq> [] then (info @ matches, types @ [tag], max cf conf) else st)"

definition pii_multi ::
  "externals \<Rightarrow> string \<Rightarrow> string \<Rightarrow> string \<Rightarrow> real \<Rightarrow> pii_state \<Rightarrow> string \<Rightarrow> pii_state" where
  "pii_multi ext c fl tag conf st pattern =
     (case st of (info, types, cf) \<Rightarrow>
        let matches = match_literal ext pattern fl c
        in if matches \<noteq> [] then
             (info @ matches, (if tag \<notin> set types then types @ [tag] else types), max cf conf)
           else st)"

definition pii_name_step :: "externals \<Rightarrow> string \<Rightarrow> pii_state \<Rightarrow> string \<Rightarrow> pii_state" where
  "pii_name_step ext c st pattern =
     (case st of (info, types, cf) \<Rightarrow>
        let names = match_literal ext pattern ''g'' c
        in if names \<noteq> [] then
             (if length names > 1 \<or> length info > 0 then
                (info @ names, (if ''name'' \<notin> set types then types @ [''name''] else types),
                 max cf 0.6)
              else st)
           else st)"

definition pii_keyword_step :: "string \<Rightarrow> pii_state \<Rightarrow> string \<Rightarrow> pii_state" where
  "pii_keyword_step c st keyword =
     (case st of (info, types, cf) \<Rightarrow>
        if str_includes (toLowerCase c) keyword
        then (info, types @ [''personal_keyword''], max cf 0.5)
        else st)"

text \<open>\<^verbatim>\<open>PersonalInfoDetector.check\<close> (lines 51 to 139).\<close>

definition PersonalInfoDetector_check :: "externals \<Rightarrow> string \<Rightarrow> PersonalInfoCheckResult" where
  "PersonalInfoDetector_check ext c =
     (let st = ([], [], 0);
          st = pii_single (match_literal ext email_pattern ''g'' c) ''email'' 0.9 st;
          st = foldl (pii_multi ext c ''g'' ''phone'' 0.8) st phone_patterns;
          st = pii_single (match_literal ext ssn_pattern ''g'' c) ''ssn'' 0.95 st;
          st = pii_single (match_literal ext credit_card_pattern ''g'' c) ''credit_card'' 0.9 st;
          st = foldl (pii_multi ext c ''gi'' ''address'' 0.7) st address_patterns;
          st = foldl (pii_name_step ext c) st name_patterns;
          st = foldl (pii_keyword_step c) st personal_keywords
      in case st of (info, types, cf) \<Rightarrow>
           \<lparr>has_personal_info = length info > 0, pii_confidence = cf,
            detected_info = dedupe info, info_types = dedupe types\<rparr>)"


section \<open>Moderation engine\<close>

text \<open>
  The fields of \<^verbatim>\<open>ModerationEngine\<close> that change: the configuration and the rule list
  held by its \<^verbatim>\<open>RuleEngine\<close>. The five detectors are created by the constructor and never
  altered, so their tables are the constants above.
\<close>

record ModerationEngine =
  config :: ModerationConfig
  rule_engine :: "ModerationRule list"

definition new_ModerationEngine :: "ModerationConfig \<Rightarrow> ModerationEngine" where
  "new_ModerationEngine cfg = \<lparr>config = cfg, rule_engine = rules cfg\<rparr>"

definition update_config :: "ModerationEngine \<Rightarrow> ModerationConfig \<Rightarrow> ModerationEngine" where
  "update_config this new_config = this\<lparr>config := new_config, rule_engine := rules new_config\<rparr>"

definition get_config :: "ModerationEngine \<Rightarrow> ModerationConfig" where
  "get_config this = config this"

text \<open>
  \<^verbatim>\<open>validate_request\<close> (\<^verbatim>\<open>moderation_engine.ts\<close>, lines 148 to 164): \<open>Some m\<close> is
  \<^verbatim>\<open>throw new Error(m)\<close>, \<open>None\<close> is the normal return.
\<close>

definition validate_request :: "ContentModerationRequest \<Rightarrow> string option" where
  "validate_request request =
     (if content request = [] \<or> length (trim (content request)) = 0 then Some CONTENT_EMPTY
      else if length (content request) > 10000 then Some CONTENT_TOO_LONG
      else if content_type request \<notin> set ContentType_values then Some INVALID_CONTENT_TYPE
      else if platform request \<notin> set PlatformType_values then Some INVALID_PLATFORM
      else None)"

text \<open>
  The five detector blocks of \<^verbatim>\<open>moderate_content\<close> (lines 50 to 115), each as the list
  of flags it pushes.
\<close>

definition profanity_flags ::
  "externals \<Rightarrow> ModerationConfig \<Rightarrow> ContentModerationRequest \<Rightarrow> ModerationFlag list" where
  "profanity_flags ext cfg request =
     (if enable_profanity_detection cfg then
        (let profanity_result = ProfanityDetector_check ext (content request)
         in if is_profane profanity_result then
              [\<lparr>type = ''profanity'', severity = MEDIUM, confidence = 0.9,
                description = PROFANITY_DETECTED,
                flagged_text = Some (join_comma (profane_words profanity_result)),
                suggestion = Some RECOMMEND_EDIT\<rparr>]
            else [])
      else [])"

definition sentiment_flags ::
  "externals \<Rightarrow> ModerationConfig \<Rightarrow> ContentModerationRequest \<Rightarrow> ModerationFlag list" where
  "sentiment_flags ext cfg request =
     (if enable_sentiment_analysis cfg then
        (let sentiment_result = SentimentAnalyzer_analyze ext (content request)
         in if comparative sentiment_result < - 0.3 then
              [\<lparr>type = ''negative_sentiment'', severity = LOW,
                confidence = \<bar>comparative sentiment_result\<bar>,
                description = NEGATIVE_SENTIMENT, flagged_text = None,
                suggestion = Some RECOMMEND_REVIEW\<rparr>]
            else [])
      else [])"

definition toxicity_flags ::
  "externals \<Rightarrow> ModerationConfig \<Rightarrow> ContentModerationRequest \<Rightarrow> ModerationFlag list" where
  "toxicity_flags ext cfg request =
     (if enable_toxicity_detection cfg then
        (let toxicity_result = ToxicityDetector_check ext (content request)
         in if is_toxic toxicity_result then
              [\<lparr>type = ''toxicity'', severity = HIGH,
                confidence = toxicity_score toxicity_result,
                description = TOXICITY_DETECTED, flagged_text = None,
                suggestion = Some RECOMMEND_REPLACE\<rparr>]
            else [])
      else [])"

definition spam_flags ::
  "externals \<Rightarrow> ModerationConfig \<Rightarrow> ContentModerationRequest \<Rightarrow> ModerationFlag list" where
  "spam_flags ext cfg request =
     (if enable_spam_detection cfg then
        (let spam_result = SpamDetector_check ext (content request)
         in if is_spam spam_result then
              [\<lparr>type = ''spam'', severity = MEDIUM, confidence = spam_score spam_result,
                description = SPAM_DETECTED, flagged_text = None,
                suggestion = Some RECOMMEND_EDIT\<rparr>]
            else [])
      else [])"

definition personal_info_flags ::
  "externals \<Rightarrow> ModerationConfig \<Rightarrow> ContentModerationRequest \<Rightarrow> ModerationFlag list" where
  "personal_info_flags ext cfg request =
     (if enable_personal_info_detection cfg then
        (let personal_info_result = PersonalInfoDetector_check ext (content request)
         in if has_personal_info personal_info_result then
              [\<lparr>type = ''personal_info'', severity = HIGH,
                confidence = pii_confidence personal_info_result,
                description = PERSONAL_INFO_DETECTED,
                flagged_text = Some (join_comma (detected_info personal_info_result)),
                suggestion = Some RECOMMEND_EDIT\<rparr>]
            else [])
      else [])"

text \<open>The list \<^verbatim>\<open>flags\<close> when line 125 is reached.\<close>

definition collect_flags ::
  "externals \<Rightarrow> ModerationEngine \<Rightarrow> ContentModerationRequest \<Rightarrow> ModerationFlag list" where
  "collect_flags ext this request =
     profanity_flags ext (config this) request @
     sentiment_flags ext (config this) request @
     toxicity_flags ext (config this) request @
     spam_flags ext (config this) request @
     personal_info_flags ext (config this) request @
     check_rules ext (rule_engine this) request @
     check_platform_rules request"

text \<open>
  \<^verbatim>\<open>moderate_content\<close> (lines 40 to 146). The two readings of \<^verbatim>\<open>Date.now()\<close> are the
  argument \<open>clock\<close>. The \<^verbatim>\<open>catch\<close> block wraps the message of the error it caught; the
  only \<^verbatim>\<open>throw\<close> statements of the repository inside the \<^verbatim>\<open>try\<close> block are those of
  \<^verbatim>\<open>validate_request\<close>.
\<close>

definition moderate_content ::
  "externals \<Rightarrow> ModerationEngine \<Rightarrow> int \<times> int \<Rightarrow> ContentModerationRequest \<Rightarrow>
   string + ContentModerationResponse" where
  "moderate_content ext this clock request =
     (case validate_request request of
        Some message \<Rightarrow> Inl (MODERATION_FAILED @ '': '' @ message)
      | None \<Rightarrow>
          (let fs = collect_flags ext this request;
               overall = calculate_overall_severity fs;
               score_of_confidence = calculate_confidence_score fs;
               safe = determine_safe_to_post fs overall;
               recs = generate_recommendations fs (platform request)
           in Inr \<lparr>is_flagged = length fs > 0, flags = fs, overall_severity = overall,
                   confidence_score = score_of_confidence, safe_to_post = safe,
                   recommendations = recs,
                   processing_time_ms = snd clock - fst clock\<rparr>))"


section \<open>The specification's formulations\<close>

text \<open>
  The definitions of this section follow the words of the specification, not the code;
  the theorems compare the two.
\<close>

text \<open>
  Section 4.7: what one pattern of a rule yields on a text. A pattern between slashes is
  a regular expression, compiled without regard to case; \<open>None\<close> is "no flag", also when
  the expression does not compile. Any other pattern is searched as a substring without
  regard to case. \<open>Some t\<close> carries the matched text.
\<close>

definition pattern_match :: "externals \<Rightarrow> string \<Rightarrow> string \<Rightarrow> string option" where
  "pattern_match ext c pattern =
     (if is_regex_pattern pattern then
        (case RegExp_match ext (slice_1_m1 pattern) ''gi'' c of
           None \<Rightarrow> None
         | Some matches \<Rightarrow> if matches = [] then None else Some (join_comma matches))
      else if str_includes (toLowerCase c) (toLowerCase pattern) then Some pattern
      else None)"

definition rule_applies :: "ModerationRule \<Rightarrow> ContentModerationRequest \<Rightarrow> bool" where
  "rule_applies rule request = (enabled rule \<and> platform request \<in> set (platforms rule))"

text \<open>One flag for each matching pattern of the rule, in the order of the patterns.\<close>

definition rule_flags_spec ::
  "externals \<Rightarrow> ContentModerationRequest \<Rightarrow> ModerationRule \<Rightarrow> ModerationFlag list" where
  "rule_flags_spec ext request rule =
     List.map_filter
       (\<lambda>pattern. map_option (rule_flag rule) (pattern_match ext (content request) pattern))
       (patterns rule)"

definition check_rules_spec ::
  "externals \<Rightarrow> ModerationRule list \<Rightarrow> ContentModerationRequest \<Rightarrow> ModerationFlag list" where
  "check_rules_spec ext rs request =
     concat (map (rule_flags_spec ext request) (filter (\<lambda>rule. rule_applies rule request) rs))"

text \<open>Section 4.9: the message of the severity tier, and the tip of a platform.\<close>

definition severity_tier_message :: "ModerationFlag list \<Rightarrow> string" where
  "severity_tier_message fs =
     (if \<exists>f\<in>set fs. severity f = HIGH \<or> severity f = CRITICAL then RECOMMEND_REPLACE
      else if \<exists>f\<in>set fs. severity f = MEDIUM then RECOMMEND_EDIT
      else if fs \<noteq> [] then RECOMMEND_REVIEW
      else CONTENT_SAFE)"

definition platform_tip :: "string \<Rightarrow> string list" where
  "platform_tip pf =
     (if pf = TWITTER then [TWITTER_TIP]
      else if pf = INSTAGRAM then [INSTAGRAM_TIP]
      else if pf = LINKEDIN then [LINKEDIN_TIP]
      else [])"



text \<open>A result of \<open>moderate_content\<close> without its processing time.\<close>

definition without_time ::
  "string + ContentModerationResponse \<Rightarrow> string + ContentModerationResponse" where
  "without_time res =
     (case res of Inl e \<Rightarrow> Inl e | Inr r \<Rightarrow> Inr (r\<lparr>processing_time_ms := 0\<rparr>))"


section \<open>Sample collaborators\<close>

text \<open>
  The theorems below hold for every choice of the collaborators. To run the pipeline on
  concrete requests, this section fixes one choice.

  The sample engine for regular expressions covers the patterns that consist of letters,
  digits, spaces and apostrophes: such a pattern matches its own text, without regard to
  case under the flag \<^verbatim>\<open>i\<close>, and the matches are found from left to right without
  overlap. A pattern with more opening than closing parentheses, and no backslash or
  bracket, does not compile. Every other pattern is outside what the sample covers and is
  reported as not matching; the sample requests below are texts in which those patterns
  of the repository (URLs, digits, runs of capitals, personal data) indeed have no match.
\<close>

definition is_plain_char :: "char \<Rightarrow> bool" where
  "is_plain_char c =
     (let n = of_char c :: nat
      in (48 \<le> n \<and> n \<le> 57) \<or> (65 \<le> n \<and> n \<le> 90) \<or> (97 \<le> n \<and> n \<le> 122) \<or> n = 32 \<or> n = 39)"

fun find_all :: "bool \<Rightarrow> string \<Rightarrow> string \<Rightarrow> string list" where
  "find_all ci p [] = []"
| "find_all ci p (c # cs) =
     (if prefix (if ci then toLowerCase p else p)
           (if ci then toLowerCase (c # cs) else c # cs)
      then take (length p) (c # cs) # find_all ci p (drop (length p - 1) cs)
      else find_all ci p cs)"

definition sample_RegExp_match :: "string \<Rightarrow> string \<Rightarrow> string \<Rightarrow> string list option" where
  "sample_RegExp_match src fl s =
     (if src = [] then Some (replicate (length s + 1) [])
      else if list_all is_plain_char src then Some (find_all (CHR ''i'' \<in> set fl) src s)
      else if count_list src CHR ''('' > count_list src CHR '')'' \<and>
              CHR 0x5C \<notin> set src \<and> CHR ''['' \<notin> set src then None
      else Some [])"

fun replace_all :: "bool \<Rightarrow> string \<Rightarrow> string \<Rightarrow> string \<Rightarrow> string" where
  "replace_all ci p r [] = []"
| "replace_all ci p r (c # cs) =
     (if prefix (if ci then toLowerCase p else p)
           (if ci then toLowerCase (c # cs) else c # cs)
      then r @ replace_all ci p r (drop (length p - 1) cs)
      else c # replace_all ci p r cs)"

definition sample_RegExp_replace :: "string \<Rightarrow> string \<Rightarrow> string \<Rightarrow> string \<Rightarrow> string" where
  "sample_RegExp_replace src fl s r =
     (if src \<noteq> [] \<and> list_all is_plain_char src then replace_all (CHR ''i'' \<in> set fl) src r s
      else s)"

text \<open>
  Modelled from the spec: the \<^verbatim>\<open>bad-words\<close> package, whose \<^verbatim>\<open>clean\<close> the profanity
  detector calls, is not part of the repository. Following section 4.2, the filter holds
  a blocklist, here a base list without the removed words, and cleaning replaces every
  word of the text that is on the blocklist, compared without regard to case, by
  asterisks. A word is a maximal run of letters, digits and underscores. The base list of
  the sample has six entries.
\<close>

definition is_word_char :: "char \<Rightarrow> bool" where
  "is_word_char c =
     (let n = of_char c :: nat
      in (48 \<le> n \<and> n \<le> 57) \<or> (65 \<le> n \<and> n \<le> 90) \<or> (97 \<le> n \<and> n \<le> 122) \<or> n = 95)"

definition clean_word :: "string list \<Rightarrow> string \<Rightarrow> string" where
  "clean_word blocklist w =
     (if toLowerCase w \<in> set blocklist then replicate (length w) CHR ''*'' else w)"

fun clean_words :: "string list \<Rightarrow> string \<Rightarrow> string \<Rightarrow> string" where
  "clean_words blocklist cur [] = clean_word blocklist (rev cur)"
| "clean_words blocklist cur (c # cs) =
     (if is_word_char c then clean_words blocklist (c # cur) cs
      else clean_word blocklist (rev cur) @ c # clean_words blocklist [] cs)"

definition sample_base_list :: "string list" where
  "sample_base_list = [''fuck'', ''shit'', ''bastard'', ''damn'', ''hell'', ''crap'']"

definition sample_Filter_clean :: "string list \<Rightarrow> string \<Rightarrow> string" where
  "sample_Filter_clean removed s =
     clean_words (filter (\<lambda>w. w \<notin> set removed) sample_base_list) [] s"

text \<open>
  Modelled from the spec: the \<^verbatim>\<open>sentiment\<close> package, whose \<^verbatim>\<open>analyze\<close> the sentiment
  analyser calls, is not part of the repository. Following section 4.3, the text is cut
  into tokens; each token has the valence that the lexicon gives it (the registered
  labels first, then the base lexicon); \<open>score\<close> is the sum of the valences and
  \<open>comparative\<close> is the score divided by the number of tokens, or 0 without tokens. The
  base lexicon of the sample has three entries.
\<close>

definition sample_base_lexicon :: "(string \<times> int) list" where
  "sample_base_lexicon = [(''bad'', - 3), (''terrible'', - 3), (''love'', 3)]"

definition sample_Sentiment_analyze ::
  "(string \<times> int) list \<Rightarrow> string \<Rightarrow> SentimentAnalysisResult" where
  "sample_Sentiment_analyze labels s =
     (let lexicon = labels @ sample_base_lexicon;
          toks = filter (\<lambda>w. w \<noteq> []) (split_ws (toLowerCase s));
          known = filter (\<lambda>w. map_of lexicon w \<noteq> None) toks;
          valence = (\<lambda>w. case map_of lexicon w of Some v \<Rightarrow> v | None \<Rightarrow> 0);
          total = sum_list (map valence known)
      in \<lparr>score = real_of_int total,
          comparative = (if length toks > 0 then real_of_int total / real (length toks) else 0),
          tokens = toks, words = known,
          positive = filter (\<lambda>w. valence w > 0) known,
          negative = filter (\<lambda>w. valence w < 0) known\<rparr>)"

definition sample_ext :: externals where
  "sample_ext =
     \<lparr>RegExp_match = sample_RegExp_match, RegExp_replace = sample_RegExp_replace,
      Filter_clean = sample_Filter_clean, Sentiment_analyze = sample_Sentiment_analyze\<rparr>"

text \<open>
  A sample engine: all detectors on, and three rules. The first rule has a literal
  pattern, a pattern that does not compile, and a regular expression; the second is
  disabled; the third is for another platform.
\<close>

definition sample_rules :: "ModerationRule list" where
  "sample_rules =
     [\<lparr>rule_id = ''r1'', rule_name = ''Remote'', rule_description = ''Remote work offer'',
       patterns = [''Work From'', ''/(/'', ''/back/''], rule_severity = CRITICAL, enabled = True,
       platforms = [TWITTER, FACEBOOK]\<rparr>,
      \<lparr>rule_id = ''r2'', rule_name = ''Home'', rule_description = ''Home office'',
       patterns = [''home''], rule_severity = LOW, enabled = False,
       platforms = [TWITTER]\<rparr>,
      \<lparr>rule_id = ''r3'', rule_name = ''Work'', rule_description = ''Work talk'',
       patterns = [''work''], rule_severity = MEDIUM, enabled = True,
       platforms = [LINKEDIN]\<rparr>]"

definition sample_config :: ModerationConfig where
  "sample_config =
     \<lparr>rules = sample_rules, sensitivity_threshold = 0.5, enable_sentiment_analysis = True,
      enable_profanity_detection = True, enable_toxicity_detection = True,
      enable_spam_detection = True, enable_hate_speech_detection = True,
      enable_violence_detection = True, enable_sexual_content_detection = True,
      enable_personal_info_detection = True\<rparr>"

definition sample_request :: ContentModerationRequest where
  "sample_request =
     \<lparr>content = ''go back to work from home'', content_type = TEXT,
      platform = TWITTER, user_id = None, metadata = None\<rparr>"


text \<open>
  Three sample requests and the responses the model computes for them (the section on
  sample runs proves that it does): the sample request above on the sample engine, a
  request of one negative word on the same engine, and a plain request on an engine
  without detectors and rules.
\<close>

definition sample_response :: ContentModerationResponse where
  "sample_response =
     \<lparr>is_flagged = True,
      flags =
        [\<lparr>type = ''toxicity'', severity = HIGH, confidence = 0.8,
          description = TOXICITY_DETECTED, flagged_text = None,
          suggestion = Some RECOMMEND_REPLACE\<rparr>,
         \<lparr>type = ''spam'', severity = MEDIUM, confidence = 0.7,
          description = SPAM_DETECTED, flagged_text = None,
          suggestion = Some RECOMMEND_EDIT\<rparr>,
         \<lparr>type = ''custom_rule_r1'', severity = CRITICAL, confidence = 0.8,
          description = ''Remote work offer'', flagged_text = Some ''Work From'',
          suggestion = Some ''Content matches rule: Remote''\<rparr>,
         \<lparr>type = ''custom_rule_r1'', severity = CRITICAL, confidence = 0.8,
          description = ''Remote work offer'', flagged_text = Some ''back'',
          suggestion = Some ''Content matches rule: Remote''\<rparr>],
      overall_severity = CRITICAL, confidence_score = 31 / 40, safe_to_post = False,
      recommendations = [RECOMMEND_REPLACE, TWITTER_TIP], processing_time_ms = 8\<rparr>"



definition quiet_config :: ModerationConfig where
  "quiet_config =
     \<lparr>rules = [], sensitivity_threshold = 0.5, enable_sentiment_analysis = False,
      enable_profanity_detection = False, enable_toxicity_detection = False,
      enable_spam_detection = False, enable_hate_speech_detection = False,
      enable_violence_detection = False, enable_sexual_content_detection = False,
      enable_personal_info_detection = False\<rparr>"

definition benign_request :: ContentModerationRequest where
  "benign_request =
     \<lparr>content = ''hello'', content_type = TEXT, platform = TWITTER, user_id = None,
      metadata = None\<rparr>"

definition quiet_response :: ContentModerationResponse where
  "quiet_response =
     \<lparr>is_flagged = False, flags = [], overall_severity = LOW, confidence_score = 1,
      safe_to_post = True, recommendations = [CONTENT_SAFE], processing_time_ms = 8\<rparr>"


section \<open>Properties of the string operations\<close>

lemma count_chars_eq: "count_chars (\<lambda>c. c = x) s = count_list s x"
  by (induction s) (simp_all add: count_chars_def)



section \<open>Properties of the aggregation\<close>

lemma severity_scores_inj: "severity_scores a = severity_scores b \<Longrightarrow> a = b"
  by (cases a; cases b) simp_all

lemma severity_scores_pos: "1 \<le> severity_scores a"
  by (cases a) simp_all

lemma foldl_severity:
  "(foldl severity_step a fs = a \<or> foldl severity_step a fs \<in> severity ` set fs) \<and>
   severity_scores a \<le> severity_scores (foldl severity_step a fs) \<and>
   (\<forall>f\<in>set fs. severity_scores (severity f) \<le> severity_scores (foldl severity_step a fs))"
proof (induction fs arbitrary: a)
  case Nil
  then show ?case by simp
next
  case (Cons f fs)
  from Cons.IH [of "severity_step a f"] show ?case
    by (auto simp: severity_step_def split: if_splits)
qed

lemma overall_severity_max:
  "(fs = [] \<longrightarrow> calculate_overall_severity fs = LOW) \<and>
   (fs \<noteq> [] \<longrightarrow> calculate_overall_severity fs \<in> severity ` set fs) \<and>
   (\<forall>f\<in>set fs. severity_scores (severity f) \<le> severity_scores (calculate_overall_severity fs))"
proof (cases "fs = []")
  case True
  then show ?thesis by (simp add: calculate_overall_severity_def)
next
  case False
  have eq: "calculate_overall_severity fs = foldl severity_step LOW fs"
    using False by (simp add: calculate_overall_severity_def)
  note F = foldl_severity [of LOW fs]
  have "foldl severity_step LOW fs \<in> severity ` set fs"
  proof (cases "foldl severity_step LOW fs = LOW")
    case True
    from False obtain f where f: "f \<in> set fs" by (cases fs) auto
    with F True have "severity_scores (severity f) \<le> 1" by auto
    with severity_scores_pos [of "severity f"]
    have "severity_scores (severity f) = severity_scores LOW" by simp
    then have "severity f = LOW" by (rule severity_scores_inj)
    with f True show ?thesis by force
  next
    case False
    with F show ?thesis by blast
  qed
  with F eq False show ?thesis by simp
qed

lemma generate_recommendations_eq:
  "generate_recommendations fs pf =
     severity_tier_message fs # (if fs = [] then [] else platform_tip pf)"
  by (simp add: generate_recommendations_def severity_tier_message_def platform_tip_def
      list_ex_iff Let_def)


section \<open>Properties of the rule engine\<close>

lemma check_single_rule_loop_eq:
  "check_single_rule_loop ext request rule ps fs =
     fs @ List.map_filter
            (\<lambda>pattern. map_option (rule_flag rule) (pattern_match ext (content request) pattern))
            ps"
  by (induction ps arbitrary: fs)
     (auto simp: pattern_match_def List.map_filter_simps split: option.splits)

lemma check_single_rule_eq:
  "check_single_rule ext request rule = rule_flags_spec ext request rule"
  by (simp add: check_single_rule_def rule_flags_spec_def check_single_rule_loop_eq)

lemma check_rules_loop_eq:
  "check_rules_loop ext rs request fs = fs @ check_rules_spec ext rs request"
  by (induction rs arbitrary: fs)
     (auto simp: check_rules_spec_def rule_applies_def check_single_rule_eq)

lemma check_rules_eq: "check_rules ext rs request = check_rules_spec ext rs request"
  by (simp add: check_rules_def check_rules_loop_eq)

lemma rule_flag_patterns: "rule_flag (rule\<lparr>patterns := ps\<rparr>) = rule_flag rule"
  by (simp add: rule_flag_def fun_eq_iff)

lemma rule_flags_spec_skip:
  "pattern_match ext (content request) p = None \<Longrightarrow>
   rule_flags_spec ext request (rule\<lparr>patterns := ps1 @ [p] @ ps2\<rparr>) =
   rule_flags_spec ext request (rule\<lparr>patterns := ps1 @ ps2\<rparr>)"
  by (simp add: rule_flags_spec_def List.map_filter_def rule_flag_patterns)

lemma rule_flags_spec_length:
  "length (rule_flags_spec ext request rule) =
   length (filter (\<lambda>p. pattern_match ext (content request) p \<noteq> None) (patterns rule))"
  unfolding rule_flags_spec_def List.map_filter_def
  by (simp add: comp_def)

lemma rule_flags_spec_props:
  "f \<in> set (rule_flags_spec ext request rule) \<Longrightarrow>
   type f = ''custom_rule_'' @ rule_id rule \<and> severity f = rule_severity rule \<and>
   confidence f = 0.8"
  by (auto simp: rule_flags_spec_def List.map_filter_def rule_flag_def)


section \<open>Properties of the spam detector\<close>














section \<open>Bounds on the scores of the toxicity and personal information detectors\<close>





section \<open>Properties of the moderation engine\<close>


lemma moderate_content_Inr:
  "moderate_content ext this clock request = Inr r \<Longrightarrow>
   validate_request request = None \<and>
   flags r = collect_flags ext this request \<and>
   overall_severity r = calculate_overall_severity (flags r) \<and>
   confidence_score r = calculate_confidence_score (flags r) \<and>
   safe_to_post r = determine_safe_to_post (flags r) (overall_severity r) \<and>
   recommendations r = generate_recommendations (flags r) (platform request) \<and>
   is_flagged r = (flags r \<noteq> []) \<and>
   processing_time_ms r = snd clock - fst clock"
  by (auto simp: moderate_content_def Let_def split: option.splits)

section \<open>Flags of the detector blocks\<close>











lemma collect_flags_config:
  assumes "rules c1 = rules c2"
    and "enable_profanity_detection c1 = enable_profanity_detection c2"
    and "enable_sentiment_analysis c1 = enable_sentiment_analysis c2"
    and "enable_toxicity_detection c1 = enable_toxicity_detection c2"
    and "enable_spam_detection c1 = enable_spam_detection c2"
    and "enable_personal_info_detection c1 = enable_personal_info_detection c2"
  shows "collect_flags ext (new_ModerationEngine c1) request =
         collect_flags ext (new_ModerationEngine c2) request"
  using assms
  by (simp add: collect_flags_def new_ModerationEngine_def profanity_flags_def
      sentiment_flags_def toxicity_flags_def spam_flags_def personal_info_flags_def)

lemma update_config_new: "update_config this cfg = new_ModerationEngine cfg"
  by (simp add: update_config_def new_ModerationEngine_def)

lemma without_time_moderate:
  "collect_flags ext e1 request = collect_flags ext e2 request \<Longrightarrow>
   without_time (moderate_content ext e1 clock1 request) =
   without_time (moderate_content ext e2 clock2 request)"
  by (simp add: without_time_def moderate_content_def Let_def split: option.splits)


section \<open>Sample runs\<close>

text \<open>
  The pipeline evaluated on the sample requests, by rewriting with the definitions.
\<close>

lemma sample_run:
  "moderate_content sample_ext (new_ModerationEngine sample_config) (10, 18) sample_request =
     Inr sample_response"
  by code_simp

lemma quiet_run:
  "moderate_content sample_ext (new_ModerationEngine quiet_config) (10, 18) benign_request =
     Inr quiet_response"
  by code_simp




lemma filter_sample:
  "Filter_clean sample_ext removed_words ''you Bastard!'' = ''you *******!'' \<and>
   Filter_clean sample_ext removed_words ''oh shit'' = ''oh shit''  \<and>
   Filter_clean sample_ext removed_words ''Fuck'' = ''****''"
  by code_simp

lemma lower_sample:
  "toLowerCase ''you Bastard!'' = ''you bastard!'' \<and> toLowerCase ''oh shit'' = ''oh shit'' \<and>
   toLowerCase ''Fuck'' = ''fuck''"
  by code_simp

lemma rules_sample:
  "check_rules_spec sample_ext sample_rules sample_request =
     [\<lparr>type = ''custom_rule_r1'', severity = CRITICAL, confidence = 0.8,
       description = ''Remote work offer'', flagged_text = Some ''Work From'',
       suggestion = Some ''Content matches rule: Remote''\<rparr>,
      \<lparr>type = ''custom_rule_r1'', severity = CRITICAL, confidence = 0.8,
       description = ''Remote work offer'', flagged_text = Some ''back'',
       suggestion = Some ''Content matches rule: Remote''\<rparr>]"
  by code_simp

lemma bad_pattern_sample:
  "is_regex_pattern ''/(/'' \<and>
   RegExp_match sample_ext (slice_1_m1 ''/(/'') ''gi'' (content sample_request) = None"
  by code_simp


section \<open>The claims\<close>




text \<open>
  \<^bold>\<open>Claim C2.\<close> For every accepted request, \<open>overall_severity\<close> is the maximum severity
  among the flags of the response under the order LOW < MEDIUM < HIGH < CRITICAL: it is
  LOW when the flag list is empty; otherwise it is the severity of one of the flags, and
  no flag ranks above it.
\<close>

theorem overall_severity_is_max:
  assumes "moderate_content ext this clock request = Inr r"
  shows "(flags r = [] \<longrightarrow> overall_severity r = LOW) \<and>
         (flags r \<noteq> [] \<longrightarrow> overall_severity r \<in> severity ` set (flags r)) \<and>
         (\<forall>f\<in>set (flags r).
            severity_scores (severity f) \<le> severity_scores (overall_severity r)) \<and>
         severity_scores LOW < severity_scores MEDIUM \<and>
         severity_scores MEDIUM < severity_scores HIGH \<and>
         severity_scores HIGH < severity_scores CRITICAL"
proof -
  from assms have "overall_severity r = calculate_overall_severity (flags r)"
    by (simp add: moderate_content_Inr)
  with overall_severity_max [of "flags r"] show ?thesis by simp
qed

text \<open>The theorem of claim C2 on the sample runs.\<close>

theorem overall_severity_is_max_witness:
  "moderate_content sample_ext (new_ModerationEngine sample_config) (10, 18) sample_request =
     Inr sample_response \<and>
   flags sample_response \<noteq> [] \<and>
   overall_severity sample_response = CRITICAL \<and>
   overall_severity sample_response \<in> severity ` set (flags sample_response) \<and>
   list_all (\<lambda>f. severity_scores (severity f) \<le> severity_scores (overall_severity sample_response))
     (flags sample_response) \<and>
   moderate_content sample_ext (new_ModerationEngine quiet_config) (10, 18) benign_request =
     Inr quiet_response \<and>
   flags quiet_response = [] \<and> overall_severity quiet_response = LOW"
  using overall_severity_is_max [OF sample_run] overall_severity_is_max [OF quiet_run]
    sample_run quiet_run
  by (simp add: sample_response_def quiet_response_def)

text \<open>
  \<^bold>\<open>Claim C3.\<close> For every accepted request, \<open>safe_to_post\<close> is false if and only if
  \<open>overall_severity\<close> is HIGH or CRITICAL.
\<close>

theorem safe_to_post_iff:
  assumes "moderate_content ext this clock request = Inr r"
  shows "(safe_to_post r = False) = (overall_severity r = HIGH \<or> overall_severity r = CRITICAL)"
proof -
  from assms have "safe_to_post r = determine_safe_to_post (flags r) (overall_severity r)"
    by (simp add: moderate_content_Inr)
  then show ?thesis by (auto simp: determine_safe_to_post_def)
qed

text \<open>The theorem of claim C3 on the sample runs.\<close>

theorem safe_to_post_iff_witness:
  "moderate_content sample_ext (new_ModerationEngine sample_config) (10, 18) sample_request =
     Inr sample_response \<and>
   safe_to_post sample_response = False \<and> overall_severity sample_response = CRITICAL \<and>
   moderate_content sample_ext (new_ModerationEngine quiet_config) (10, 18) benign_request =
     Inr quiet_response \<and>
   safe_to_post quiet_response = True \<and> overall_severity quiet_response = LOW"
  using safe_to_post_iff [OF sample_run] safe_to_post_iff [OF quiet_run] sample_run quiet_run
  by (simp add: sample_response_def quiet_response_def)





text \<open>
  \<^bold>\<open>Claim C6.\<close> \<open>check_rules\<close> yields, rule by rule and pattern by pattern, one flag for
  every matching pattern of every rule that is enabled and lists the platform of the
  request, and nothing else. Every flag has the type \<open>custom_rule_\<close> followed by the id
  of its rule, the severity of the rule and the confidence 0.8; a rule yields as many
  flags as it has matching patterns. A pattern between slashes that does not compile
  yields no flag and no error, and the other patterns and rules are evaluated as if it
  were not there.
\<close>

theorem check_rules_refines:
  "check_rules ext rs request = check_rules_spec ext rs request \<and>
   (\<forall>f\<in>set (check_rules ext rs request).
      \<exists>rule\<in>set rs. enabled rule \<and> platform request \<in> set (platforms rule) \<and>
        type f = ''custom_rule_'' @ rule_id rule \<and> severity f = rule_severity rule \<and>
        confidence f = 0.8) \<and>
   (\<forall>rule. length (check_single_rule ext request rule) =
      length (filter (\<lambda>p. pattern_match ext (content request) p \<noteq> None) (patterns rule))) \<and>
   (\<forall>rule p ps1 ps2.
      is_regex_pattern p \<and> RegExp_match ext (slice_1_m1 p) ''gi'' (content request) = None \<longrightarrow>
      check_single_rule ext request (rule\<lparr>patterns := ps1 @ [p] @ ps2\<rparr>) =
      check_single_rule ext request (rule\<lparr>patterns := ps1 @ ps2\<rparr>))"
proof (intro conjI allI ballI impI)
  show "check_rules ext rs request = check_rules_spec ext rs request"
    by (rule check_rules_eq)
next
  fix f assume "f \<in> set (check_rules ext rs request)"
  then obtain rule where "rule \<in> set rs" "rule_applies rule request"
    "f \<in> set (rule_flags_spec ext request rule)"
    by (auto simp: check_rules_eq check_rules_spec_def)
  then show "\<exists>rule\<in>set rs. enabled rule \<and> platform request \<in> set (platforms rule) \<and>
        type f = ''custom_rule_'' @ rule_id rule \<and> severity f = rule_severity rule \<and>
        confidence f = 0.8"
    using rule_flags_spec_props [of f ext request rule] by (auto simp: rule_applies_def)
next
  fix rule
  show "length (check_single_rule ext request rule) =
      length (filter (\<lambda>p. pattern_match ext (content request) p \<noteq> None) (patterns rule))"
    by (simp add: check_single_rule_eq rule_flags_spec_length)
next
  fix rule p ps1 ps2
  assume "is_regex_pattern p \<and> RegExp_match ext (slice_1_m1 p) ''gi'' (content request) = None"
  then have "pattern_match ext (content request) p = None"
    by (simp add: pattern_match_def)
  then show "check_single_rule ext request (rule\<lparr>patterns := ps1 @ [p] @ ps2\<rparr>) =
      check_single_rule ext request (rule\<lparr>patterns := ps1 @ ps2\<rparr>)"
    unfolding check_single_rule_eq by (rule rule_flags_spec_skip)
qed

text \<open>The theorem of claim C6 on the sample runs.\<close>

theorem check_rules_refines_witness:
  "check_rules sample_ext sample_rules sample_request =
     [\<lparr>type = ''custom_rule_r1'', severity = CRITICAL, confidence = 0.8,
       description = ''Remote work offer'', flagged_text = Some ''Work From'',
       suggestion = Some ''Content matches rule: Remote''\<rparr>,
      \<lparr>type = ''custom_rule_r1'', severity = CRITICAL, confidence = 0.8,
       description = ''Remote work offer'', flagged_text = Some ''back'',
       suggestion = Some ''Content matches rule: Remote''\<rparr>] \<and>
   is_regex_pattern ''/(/'' \<and>
   RegExp_match sample_ext (slice_1_m1 ''/(/'') ''gi'' (content sample_request) = None \<and>
   check_single_rule sample_ext sample_request
     (hd sample_rules\<lparr>patterns := [''Work From''] @ [''/(/''] @ [''/back/'']\<rparr>) =
   check_single_rule sample_ext sample_request
     (hd sample_rules\<lparr>patterns := [''Work From''] @ [''/back/'']\<rparr>)"
proof -
  note refines = check_rules_refines [of sample_ext sample_rules sample_request]
  note skip = refines [THEN conjunct2, THEN conjunct2, THEN conjunct2, rule_format,
      where p = "''/(/''" and rule = "hd sample_rules" and ?ps1.0 = "[''Work From'']"
        and ?ps2.0 = "[''/back/'']"]
  from refines rules_sample
  have "check_rules sample_ext sample_rules sample_request =
     [\<lparr>type = ''custom_rule_r1'', severity = CRITICAL, confidence = 0.8,
       description = ''Remote work offer'', flagged_text = Some ''Work From'',
       suggestion = Some ''Content matches rule: Remote''\<rparr>,
      \<lparr>type = ''custom_rule_r1'', severity = CRITICAL, confidence = 0.8,
       description = ''Remote work offer'', flagged_text = Some ''back'',
       suggestion = Some ''Content matches rule: Remote''\<rparr>]"
    by simp
  with skip [OF bad_pattern_sample] bad_pattern_sample show ?thesis by simp
qed

text \<open>
  \<^bold>\<open>Claim C7.\<close> The platform check depends on the content and the platform only. For
  TWITTER it yields exactly one LOW \<open>character_limit\<close> flag of confidence 1 if the content
  has more than 280 code units and nothing otherwise; for INSTAGRAM one LOW
  \<open>hashtag_limit\<close> flag iff there are more than 30 number signs; for LINKEDIN one LOW
  \<open>mention_limit\<close> flag iff there are more than 5 at signs; for every other platform it
  yields nothing.
\<close>

theorem platform_policy:
  "(content r' = content r \<and> platform r' = platform r \<longrightarrow>
      check_platform_rules r' = check_platform_rules r) \<and>
   (platform r = TWITTER \<longrightarrow>
      check_platform_rules r =
        (if length (content r) > 280
         then [\<lparr>type = ''character_limit'', severity = LOW, confidence = 1,
                description = CHARACTER_LIMIT, flagged_text = None,
                suggestion = Some ''Consider shortening your post''\<rparr>]
         else [])) \<and>
   (platform r = INSTAGRAM \<longrightarrow>
      check_platform_rules r =
        (if count_list (content r) CHR ''#'' > 30
         then [\<lparr>type = ''hashtag_limit'', severity = LOW, confidence = 1,
                description = HASHTAG_LIMIT, flagged_text = None,
                suggestion = Some ''Reduce the number of hashtags''\<rparr>]
         else [])) \<and>
   (platform r = LINKEDIN \<longrightarrow>
      check_platform_rules r =
        (if count_list (content r) CHR ''@'' > 5
         then [\<lparr>type = ''mention_limit'', severity = LOW, confidence = 1,
                description = MENTION_LIMIT, flagged_text = None,
                suggestion = Some ''Reduce the number of mentions''\<rparr>]
         else [])) \<and>
   (platform r \<notin> {TWITTER, INSTAGRAM, LINKEDIN} \<longrightarrow> check_platform_rules r = [])"
  by (simp add: check_platform_rules_def count_chars_eq Let_def)

text \<open>The theorem of claim C7 on the sample runs.\<close>

theorem platform_policy_witness:
  "check_platform_rules (sample_request\<lparr>content := replicate 281 CHR ''a''\<rparr>) =
     [\<lparr>type = ''character_limit'', severity = LOW, confidence = 1,
       description = CHARACTER_LIMIT, flagged_text = None,
       suggestion = Some ''Consider shortening your post''\<rparr>] \<and>
   check_platform_rules (sample_request\<lparr>content := replicate 280 CHR ''a''\<rparr>) = [] \<and>
   check_platform_rules
     (sample_request\<lparr>content := replicate 281 CHR ''a'', user_id := Some ''u1''\<rparr>) =
   check_platform_rules (sample_request\<lparr>content := replicate 281 CHR ''a''\<rparr>) \<and>
   check_platform_rules
     \<lparr>content = ''###############################'', content_type = IMAGE,
      platform = INSTAGRAM, user_id = None, metadata = None\<rparr> =
     [\<lparr>type = ''hashtag_limit'', severity = LOW, confidence = 1,
       description = HASHTAG_LIMIT, flagged_text = None,
       suggestion = Some ''Reduce the number of hashtags''\<rparr>] \<and>
   check_platform_rules
     \<lparr>content = ''@a @b @c @d @e @f'', content_type = TEXT,
      platform = LINKEDIN, user_id = None, metadata = None\<rparr> =
     [\<lparr>type = ''mention_limit'', severity = LOW, confidence = 1,
       description = MENTION_LIMIT, flagged_text = None,
       suggestion = Some ''Reduce the number of mentions''\<rparr>] \<and>
   check_platform_rules
     \<lparr>content = replicate 281 CHR ''@'', content_type = TEXT,
      platform = FACEBOOK, user_id = None, metadata = None\<rparr> = []"
  using
    platform_policy [of "sample_request\<lparr>content := replicate 281 CHR ''a'', user_id := Some ''u1''\<rparr>"
      "sample_request\<lparr>content := replicate 281 CHR ''a''\<rparr>"]
    platform_policy [of sample_request "sample_request\<lparr>content := replicate 280 CHR ''a''\<rparr>"]
    platform_policy [of sample_request
      "\<lparr>content = ''###############################'', content_type = IMAGE,
        platform = INSTAGRAM, user_id = None, metadata = None\<rparr>"]
    platform_policy [of sample_request
      "\<lparr>content = ''@a @b @c @d @e @f'', content_type = TEXT,
        platform = LINKEDIN, user_id = None, metadata = None\<rparr>"]
    platform_policy [of sample_request
      "\<lparr>content = replicate 281 CHR ''@'', content_type = TEXT,
        platform = FACEBOOK, user_id = None, metadata = None\<rparr>"]
  by (simp add: sample_request_def)

text \<open>
  \<^bold>\<open>Claim C8.\<close> For every accepted request, the recommendations begin with exactly one
  message of the severity tier: "replace" if a flag is HIGH or CRITICAL, else "edit" if a
  flag is MEDIUM, else "review" if there is a flag, else the "safe" message. At most one
  tip follows it, and none for a platform other than TWITTER, INSTAGRAM and LINKEDIN. The
  tip of one of these three platforms follows whenever the response has a flag; the safe
  message of a response without flags stands alone.
\<close>

theorem recommendations_shape:
  assumes "moderate_content ext this clock request = Inr r"
  shows "recommendations r =
           severity_tier_message (flags r) #
             (if flags r = [] then [] else platform_tip (platform request)) \<and>
         length (platform_tip (platform request)) \<le> 1 \<and>
         (platform request \<notin> {TWITTER, INSTAGRAM, LINKEDIN} \<longrightarrow>
            platform_tip (platform request) = [])"
proof -
  from assms have "recommendations r = generate_recommendations (flags r) (platform request)"
    by (simp add: moderate_content_Inr)
  then show ?thesis
    by (simp add: generate_recommendations_eq) (simp add: platform_tip_def)
qed

text \<open>The theorem of claim C8 on the sample runs.\<close>

theorem recommendations_shape_witness:
  "moderate_content sample_ext (new_ModerationEngine sample_config) (10, 18) sample_request =
     Inr sample_response \<and>
   recommendations sample_response = [RECOMMEND_REPLACE, TWITTER_TIP] \<and>
   severity_tier_message (flags sample_response) = RECOMMEND_REPLACE \<and>
   platform_tip (platform sample_request) = [TWITTER_TIP] \<and>
   moderate_content sample_ext (new_ModerationEngine quiet_config) (10, 18) benign_request =
     Inr quiet_response \<and>
   recommendations quiet_response = [CONTENT_SAFE] \<and>
   severity_tier_message (flags quiet_response) = CONTENT_SAFE \<and>
   platform benign_request = TWITTER"
  using recommendations_shape [OF sample_run] recommendations_shape [OF quiet_run]
    sample_run quiet_run
  by (simp add: sample_response_def quiet_response_def sample_request_def benign_request_def
      severity_tier_message_def platform_tip_def)

text \<open>
  \<^bold>\<open>Claim C9.\<close> For every content, the \<open>profane_words\<close> of \<open>ProfanityDetector.check\<close>
  are among the six words \<open>fuck, shit, bitch, ass, damn, hell\<close>, each of them occurs in
  the content without regard to case, and the list is empty whenever \<open>is_profane\<close> is
  false. \<open>is_profane\<close> is decided by the filter alone: whenever the filter changes a
  content that has none of the six words, the result is \<open>is_profane\<close> with an empty list
  of words.
\<close>

theorem profane_words_narrow:
  "set (profane_words (ProfanityDetector_check ext c)) \<subseteq>
     {''fuck'', ''shit'', ''bitch'', ''ass'', ''damn'', ''hell''} \<and>
   (\<forall>w\<in>set (profane_words (ProfanityDetector_check ext c)). str_includes (toLowerCase c) w) \<and>
   (\<not> is_profane (ProfanityDetector_check ext c) \<longrightarrow>
      profane_words (ProfanityDetector_check ext c) = []) \<and>
   is_profane (ProfanityDetector_check ext c) = (Filter_clean ext removed_words c \<noteq> c) \<and>
   (Filter_clean ext removed_words c \<noteq> c \<and>
    (\<forall>w\<in>{''fuck'', ''shit'', ''bitch'', ''ass'', ''damn'', ''hell''}.
       \<not> str_includes (toLowerCase c) w) \<longrightarrow>
    is_profane (ProfanityDetector_check ext c) \<and>
    profane_words (ProfanityDetector_check ext c) = [])"
  by (auto simp: ProfanityDetector_check_def Let_def common_profane_def)

text \<open>The theorem of claim C9 on the sample runs.\<close>

theorem profane_words_narrow_witness:
  "is_profane (ProfanityDetector_check sample_ext ''you Bastard!'') \<and>
   profane_words (ProfanityDetector_check sample_ext ''you Bastard!'') = [] \<and>
   \<not> is_profane (ProfanityDetector_check sample_ext ''oh shit'') \<and>
   profane_words (ProfanityDetector_check sample_ext ''oh shit'') = [] \<and>
   is_profane (ProfanityDetector_check sample_ext ''Fuck'') \<and>
   set (profane_words (ProfanityDetector_check sample_ext ''Fuck'')) \<subseteq>
     {''fuck'', ''shit'', ''bitch'', ''ass'', ''damn'', ''hell''}"
  using profane_words_narrow [of sample_ext "''you Bastard!''"]
    profane_words_narrow [of sample_ext "''oh shit''"]
    profane_words_narrow [of sample_ext "''Fuck''"]
    filter_sample lower_sample
  by simp

text \<open>
  \<^bold>\<open>Claim C10.\<close> Apart from the processing time, the result of \<open>moderate_content\<close>
  depends on the configuration only through its rules and the five switches for
  profanity, sentiment, toxicity, spam and personal information: two engines, created or
  updated with configurations that agree on these, give the same result on every
  request. In particular, changing \<open>sensitivity_threshold\<close> and the switches for hate
  speech, violence and sexual content changes nothing.
\<close>

theorem config_noninterference:
  assumes "rules c1 = rules c2"
    and "enable_profanity_detection c1 = enable_profanity_detection c2"
    and "enable_sentiment_analysis c1 = enable_sentiment_analysis c2"
    and "enable_toxicity_detection c1 = enable_toxicity_detection c2"
    and "enable_spam_detection c1 = enable_spam_detection c2"
    and "enable_personal_info_detection c1 = enable_personal_info_detection c2"
  shows "without_time (moderate_content ext (new_ModerationEngine c1) clock1 request) =
         without_time (moderate_content ext (new_ModerationEngine c2) clock2 request) \<and>
         without_time (moderate_content ext (update_config this1 c1) clock1 request) =
         without_time (moderate_content ext (update_config this2 c2) clock2 request) \<and>
         without_time (moderate_content ext
            (new_ModerationEngine (c1\<lparr>sensitivity_threshold := t,
               enable_hate_speech_detection := h, enable_violence_detection := v,
               enable_sexual_content_detection := x\<rparr>)) clock1 request) =
         without_time (moderate_content ext (new_ModerationEngine c1) clock2 request)"
proof -
  have a: "collect_flags ext (new_ModerationEngine c1) request =
           collect_flags ext (new_ModerationEngine c2) request"
    using assms by (rule collect_flags_config)
  have b: "collect_flags ext
            (new_ModerationEngine (c1\<lparr>sensitivity_threshold := t,
               enable_hate_speech_detection := h, enable_violence_detection := v,
               enable_sexual_content_detection := x\<rparr>)) request =
           collect_flags ext (new_ModerationEngine c1) request"
    by (rule collect_flags_config) simp_all
  from a b show ?thesis
    by (simp add: update_config_new without_time_moderate [OF a] without_time_moderate [OF b])
qed

text \<open>The theorem of claim C10 on the sample runs.\<close>

theorem config_noninterference_witness:
  "rules (sample_config\<lparr>sensitivity_threshold := 0.9, enable_hate_speech_detection := False,
      enable_violence_detection := False, enable_sexual_content_detection := False\<rparr>) =
     rules sample_config \<and>
   without_time (moderate_content sample_ext
      (new_ModerationEngine (sample_config\<lparr>sensitivity_threshold := 0.9,
         enable_hate_speech_detection := False, enable_violence_detection := False,
         enable_sexual_content_detection := False\<rparr>)) (20, 45) sample_request) =
     Inr (sample_response\<lparr>processing_time_ms := 0\<rparr>) \<and>
   without_time (moderate_content sample_ext
      (update_config (new_ModerationEngine quiet_config)
         (sample_config\<lparr>sensitivity_threshold := 0.9,
            enable_hate_speech_detection := False, enable_violence_detection := False,
            enable_sexual_content_detection := False\<rparr>)) (20, 45) sample_request) =
     Inr (sample_response\<lparr>processing_time_ms := 0\<rparr>)"
  using
    config_noninterference [of
      "sample_config\<lparr>sensitivity_threshold := 0.9, enable_hate_speech_detection := False,
         enable_violence_detection := False, enable_sexual_content_detection := False\<rparr>"
      sample_config sample_ext "(20, 45)" sample_request "(10, 18)"
      "new_ModerationEngine quiet_config" "new_ModerationEngine sample_config"]
    sample_run
  by (simp add: without_time_def update_config_new)

end
